theory Spec2Isabelle
  imports Main
begin

section \<open>The element tree returned by the App component\<close>

text \<open>
  \<open>src/src/App.jsx\<close> holds one function component, \<open>App\<close>. It owns one piece of
  state, \<open>activeSection\<close>, binds two local arrays, \<open>principles\<close> and \<open>exercises\<close>, and
  returns a JSX expression. The JSX expression is modelled as a tree:
  \<^item> a JSX text literal is \<open>Lit\<close>, with the whitespace trimmed as JSX does;
  \<^item> a JSX expression container \<open>{e}\<close> whose value is a string or a number is \<open>Dyn\<close>,
    holding the text React puts into the page for that value;
  \<^item> an element is \<open>Elem\<close> with its tag, its props in source order and its children.
  Strings are byte strings: the two characters of the source beyond ASCII (the bullet
  and the copyright sign) are written as their UTF-8 bytes.
\<close>

text \<open>
  An event handler of the source is either \<open>() => setActiveSection(v)\<close> or
  \<open>() => window.open(url, target)\<close>. The state setter itself, passed as
  \<open>onValueChange={setActiveSection}\<close>, is \<open>SetActiveSection\<close>.
\<close>

datatype handler = CallSetActiveSection string | WindowOpen string string

datatype setter = SetActiveSection

datatype jsx_prop =
    ClassName string
  | Variant string
  | Size string
  | Value string
  | Key string
  | OnClick handler
  | OnValueChange setter

datatype node = Lit string | Dyn string | Elem string "jsx_prop list" "node list"

text \<open>The records of the two arrays. The field \<open>id\<close> of a principle is \<open>id_p\<close> here.\<close>

record principle =
  id_p :: string
  name :: string
  fullName :: string
  icon :: node
  color :: string
  description :: string
  benefits :: "string list"

record exercise =
  principle :: string
  title :: string
  language :: string
  scenario :: string
  difficulty :: string

definition principles :: "principle list" where
  "principles = [
     \<lparr> id_p = ''dry'', name = ''DRY'', fullName = ''Don't Repeat Yourself'',
       icon = Elem ''Target'' [ClassName ''w-6 h-6''] [],
       color = ''bg-blue-500'',
       description = ''Avoid duplication of code, logic, or data. Every piece of knowledge should have a single, unambiguous representation.'',
       benefits = [''Maintainability'', ''Readability'', ''Reduced Bugs'', ''Faster Development''] \<rparr>,
     \<lparr> id_p = ''kiss'', name = ''KISS'', fullName = ''Keep It Simple, Stupid'',
       icon = Elem ''Lightbulb'' [ClassName ''w-6 h-6''] [],
       color = ''bg-green-500'',
       description = ''Simplicity should be a key goal in design. Avoid unnecessary complexity and over-engineering.'',
       benefits = [''Readability'', ''Reduced Bugs'', ''Faster Development'', ''Easier Maintenance''] \<rparr>,
     \<lparr> id_p = ''srp'', name = ''SRP'', fullName = ''Single Responsibility Principle'',
       icon = Elem ''Shield'' [ClassName ''w-6 h-6''] [],
       color = ''bg-purple-500'',
       description = ''A class should have only one reason to change. Each module should have responsibility over a single part of functionality.'',
       benefits = [''Modularity'', ''Maintainability'', ''Testability'', ''Clarity''] \<rparr>,
     \<lparr> id_p = ''solid'', name = ''SOLID'', fullName = ''SOLID Principles'',
       icon = Elem ''Layers'' [ClassName ''w-6 h-6''] [],
       color = ''bg-orange-500'',
       description = ''Five design principles (SRP, OCP, LSP, ISP, DIP) that make software designs more understandable, flexible, and maintainable.'',
       benefits = [''Robustness'', ''Flexibility'', ''Maintainability'', ''Testability''] \<rparr>
   ]"

definition exercises :: "exercise list" where
  "exercises = [
     \<lparr> principle = ''DRY'', title = ''Data Validation'', language = ''Python'',
       scenario = ''User Registration and Profile Update'', difficulty = ''Beginner'' \<rparr>,
     \<lparr> principle = ''DRY'', title = ''API Response Formatting'', language = ''Node.js/Next.js'',
       scenario = ''Consistent API Response Structure'', difficulty = ''Beginner'' \<rparr>,
     \<lparr> principle = ''KISS'', title = ''Order Processing Logic'', language = ''Python'',
       scenario = ''Complex Discount Calculation'', difficulty = ''Intermediate'' \<rparr>,
     \<lparr> principle = ''KISS'', title = ''Frontend Form Handling'', language = ''Node.js/Next.js'',
       scenario = ''Checkout Form Validation'', difficulty = ''Intermediate'' \<rparr>,
     \<lparr> principle = ''SRP'', title = ''User Management'', language = ''Python'',
       scenario = ''Overloaded User Class'', difficulty = ''Intermediate'' \<rparr>,
     \<lparr> principle = ''SRP'', title = ''API Request Handling'', language = ''Node.js/Next.js'',
       scenario = ''Overloaded API Route Handler'', difficulty = ''Intermediate'' \<rparr>
   ]"

text \<open>
  A number in a JSX expression container, or as a \<open>key\<close>, reaches the page as its
  decimal text. The numbers of the source are list indices, so naturals suffice.
\<close>

function show_nat :: "nat \<Rightarrow> string" where
  "show_nat n =
     (if n < 10 then [char_of (48 + n)]
      else show_nat (n div 10) @ [char_of (48 + n mod 10)])"
  by pat_completeness auto
termination
  by (relation "measure (\<lambda>n. n)") auto

declare show_nat.simps [simp del]

subsection \<open>Header and footer\<close>

definition App_header :: node where
  "App_header =
     Elem ''header'' [ClassName ''border-b bg-white/80 backdrop-blur-sm dark:bg-slate-900/80 sticky top-0 z-50''] [
       Elem ''div'' [ClassName ''container mx-auto px-4 py-4''] [
         Elem ''div'' [ClassName ''flex items-center justify-between''] [
           Elem ''div'' [ClassName ''flex items-center space-x-3''] [
             Elem ''div'' [ClassName ''p-2 bg-gradient-to-r from-blue-500 to-purple-600 rounded-lg''] [
               Elem ''Code'' [ClassName ''w-6 h-6 text-white''] []],
             Elem ''div'' [] [
               Elem ''h1'' [ClassName ''text-xl font-bold''] [Lit ''Programming Principles''],
               Elem ''p'' [ClassName ''text-sm text-muted-foreground''] [
                 Lit ''DRY, KISS, SRP & SOLID for E-commerce'']]],
           Elem ''div'' [ClassName ''flex items-center space-x-2''] [
             Elem ''Badge'' [Variant ''outline''] [Lit ''Interactive Exercises''],
             Elem ''Button''
               [Variant ''outline'', Size ''sm'',
                OnClick (WindowOpen ''https://github.com/prabodh-dev1/programming-principles'' ''_blank'')] [
               Elem ''Github'' [ClassName ''w-4 h-4 mr-2''] [],
               Lit ''View Source'']]]]]"

definition App_footer :: node where
  "App_footer =
     Elem ''footer'' [ClassName ''border-t bg-white/80 backdrop-blur-sm dark:bg-slate-900/80 mt-16''] [
       Elem ''div'' [ClassName ''container mx-auto px-4 py-8''] [
         Elem ''div'' [ClassName ''text-center text-muted-foreground''] [
           Elem ''p'' [] [
             Lit (CHR 0xC2 # CHR 0xA9 #
               '' 2024 Programming Principles Guide. Built for educational purposes.'')]]]]"

subsection \<open>Overview tab\<close>

text \<open>The body of \<open>principles.map((principle) => ...)\<close> in the Overview tab.\<close>

definition overview_card :: "principle \<Rightarrow> node" where
  "overview_card p =
     Elem ''Card'' [Key (id_p p), ClassName ''group hover:shadow-lg transition-all duration-300 hover:-translate-y-1''] [
       Elem ''CardHeader'' [ClassName ''text-center''] [
         Elem ''div''
           [ClassName (''w-12 h-12 '' @ color p @
              '' rounded-lg flex items-center justify-center text-white mx-auto mb-3 group-hover:scale-110 transition-transform'')]
           [icon p],
         Elem ''CardTitle'' [ClassName ''text-lg''] [Dyn (name p)],
         Elem ''CardDescription'' [ClassName ''text-sm''] [Dyn (fullName p)]],
       Elem ''CardContent'' [] [
         Elem ''p'' [ClassName ''text-sm text-muted-foreground mb-4''] [Dyn (description p)],
         Elem ''div'' [ClassName ''space-y-2''] [
           Elem ''p'' [ClassName ''text-xs font-medium text-muted-foreground''] [Lit ''Key Benefits:''],
           Elem ''div'' [ClassName ''flex flex-wrap gap-1'']
             (map (\<lambda>benefit.
                     Elem ''Badge'' [Key benefit, Variant ''secondary'', ClassName ''text-xs''] [Dyn benefit])
                (benefits p))]]]"

definition overview_tab :: node where
  "overview_tab =
     Elem ''TabsContent'' [Value ''overview'', ClassName ''space-y-8''] [
       Elem ''div'' [ClassName ''text-center space-y-4''] [
         Elem ''h2'' [ClassName ''text-4xl font-bold bg-gradient-to-r from-blue-600 to-purple-600 bg-clip-text text-transparent''] [
           Lit ''Master Programming Principles''],
         Elem ''p'' [ClassName ''text-xl text-muted-foreground max-w-3xl mx-auto''] [
           Lit ''Learn DRY, KISS, SRP, and SOLID principles through practical e-commerce examples in Python and Node.js/Next.js'']],
       Elem ''div'' [ClassName ''grid grid-cols-1 md:grid-cols-2 lg:grid-cols-4 gap-6'']
         (map overview_card principles),
       Elem ''Card'' [ClassName ''bg-gradient-to-r from-blue-50 to-purple-50 dark:from-blue-950/20 dark:to-purple-950/20 border-blue-200 dark:border-blue-800''] [
         Elem ''CardContent'' [ClassName ''p-8''] [
           Elem ''div'' [ClassName ''flex items-center justify-between''] [
             Elem ''div'' [] [
               Elem ''h3'' [ClassName ''text-2xl font-bold mb-2''] [Lit ''Ready to Start Learning?''],
               Elem ''p'' [ClassName ''text-muted-foreground mb-4''] [
                 Lit ''Explore interactive exercises with real-world e-commerce scenarios'']],
             Elem ''Button''
               [Size ''lg'', OnClick (CallSetActiveSection ''exercises''),
                ClassName ''bg-gradient-to-r from-blue-500 to-purple-600 hover:from-blue-600 hover:to-purple-700''] [
               Lit ''Start Exercises'',
               Elem ''ArrowRight'' [ClassName ''w-4 h-4 ml-2''] []]]]]]"

subsection \<open>Principles tab\<close>

text \<open>The body of \<open>principles.map((principle, index) => ...)\<close> in the Principles tab.\<close>

definition principle_card :: "principle \<Rightarrow> nat \<Rightarrow> node" where
  "principle_card p index =
     Elem ''Card'' [Key (id_p p), ClassName ''overflow-hidden''] [
       Elem ''CardHeader'' [ClassName ''bg-gradient-to-r from-slate-50 to-slate-100 dark:from-slate-800 dark:to-slate-700''] [
         Elem ''div'' [ClassName ''flex items-center space-x-4''] [
           Elem ''div''
             [ClassName (''w-12 h-12 '' @ color p @
                '' rounded-lg flex items-center justify-center text-white'')]
             [icon p],
           Elem ''div'' [] [
             Elem ''CardTitle'' [ClassName ''text-xl''] [
               Dyn (fullName p), Lit '' ('', Dyn (name p), Lit '')''],
             Elem ''CardDescription'' [] [
               Lit ''Essential principle #'', Dyn (show_nat (index + 1))]]]],
       Elem ''CardContent'' [ClassName ''p-6''] [
         Elem ''p'' [ClassName ''text-muted-foreground mb-6''] [Dyn (description p)],
         Elem ''div'' [ClassName ''grid md:grid-cols-2 gap-6''] [
           Elem ''div'' [] [
             Elem ''h4'' [ClassName ''font-semibold mb-3 flex items-center''] [
               Elem ''Target'' [ClassName ''w-4 h-4 mr-2 text-blue-500''] [],
               Lit ''Key Benefits''],
             Elem ''ul'' [ClassName ''space-y-2'']
               (map (\<lambda>benefit.
                       Elem ''li'' [Key benefit, ClassName ''flex items-center text-sm''] [
                         Elem ''div'' [ClassName ''w-2 h-2 bg-green-500 rounded-full mr-3''] [],
                         Dyn benefit])
                  (benefits p))],
           Elem ''div'' [] [
             Elem ''h4'' [ClassName ''font-semibold mb-3 flex items-center''] [
               Elem ''BookOpen'' [ClassName ''w-4 h-4 mr-2 text-purple-500''] [],
               Lit ''E-commerce Applications''],
             Elem ''ul'' [ClassName ''space-y-2 text-sm text-muted-foreground''] [
               Elem ''li'' [] [Lit (CHR 0xE2 # CHR 0x80 # CHR 0xA2 # '' User management systems'')],
               Elem ''li'' [] [Lit (CHR 0xE2 # CHR 0x80 # CHR 0xA2 # '' Product catalog handling'')],
               Elem ''li'' [] [Lit (CHR 0xE2 # CHR 0x80 # CHR 0xA2 # '' Order processing workflows'')],
               Elem ''li'' [] [Lit (CHR 0xE2 # CHR 0x80 # CHR 0xA2 # '' Payment gateway integration'')]]]]]]"

definition principles_tab :: node where
  "principles_tab =
     Elem ''TabsContent'' [Value ''principles'', ClassName ''space-y-6''] [
       Elem ''div'' [ClassName ''text-center space-y-4 mb-8''] [
         Elem ''h2'' [ClassName ''text-3xl font-bold''] [Lit ''Programming Principles''],
         Elem ''p'' [ClassName ''text-muted-foreground max-w-2xl mx-auto''] [
           Lit ''Deep dive into each principle with detailed explanations and real-world applications'']],
       Elem ''div'' [ClassName ''grid gap-6'']
         (map (\<lambda>(index, principle). principle_card principle index) (enumerate 0 principles))]"

subsection \<open>Exercises tab\<close>

text \<open>The body of \<open>exercises.map((exercise, index) => ...)\<close> in the Exercises tab.\<close>

definition exercise_card :: "exercise \<Rightarrow> nat \<Rightarrow> node" where
  "exercise_card e index =
     Elem ''Card'' [Key (show_nat index), ClassName ''group hover:shadow-md transition-all duration-200''] [
       Elem ''CardContent'' [ClassName ''p-6''] [
         Elem ''div'' [ClassName ''flex items-center justify-between''] [
           Elem ''div'' [ClassName ''flex items-center space-x-4''] [
             Elem ''div'' [ClassName ''flex items-center space-x-2''] [
               Elem ''Badge'' [Variant ''outline'', ClassName ''font-mono''] [Dyn (principle e)],
               Elem ''Badge'' [Variant ''secondary''] [Dyn (language e)],
               Elem ''Badge''
                 [Variant (if difficulty e = ''Beginner'' then ''default'' else ''destructive''),
                  ClassName ''text-xs'']
                 [Dyn (difficulty e)]]],
           Elem ''Button''
             [Variant ''ghost'', Size ''sm'',
              ClassName ''opacity-0 group-hover:opacity-100 transition-opacity'',
              OnClick (WindowOpen ''https://github.com/prabodh-dev1/programming-principles/blob/main/README.md'' ''_blank'')] [
             Elem ''ExternalLink'' [ClassName ''w-4 h-4''] []]],
         Elem ''div'' [ClassName ''mt-4''] [
           Elem ''h3'' [ClassName ''font-semibold text-lg mb-2''] [Dyn (title e)],
           Elem ''p'' [ClassName ''text-muted-foreground text-sm''] [Dyn (scenario e)]]]]"

definition exercises_tab :: node where
  "exercises_tab =
     Elem ''TabsContent'' [Value ''exercises'', ClassName ''space-y-6''] [
       Elem ''div'' [ClassName ''text-center space-y-4 mb-8''] [
         Elem ''h2'' [ClassName ''text-3xl font-bold''] [Lit ''Interactive Exercises''],
         Elem ''p'' [ClassName ''text-muted-foreground max-w-2xl mx-auto''] [
           Lit ''Practice with real-world e-commerce scenarios in Python and Node.js/Next.js'']],
       Elem ''div'' [ClassName ''grid gap-4'']
         (map (\<lambda>(index, exercise). exercise_card exercise index) (enumerate 0 exercises)),
       Elem ''Card'' [ClassName ''bg-gradient-to-r from-green-50 to-blue-50 dark:from-green-950/20 dark:to-blue-950/20 border-green-200 dark:border-green-800''] [
         Elem ''CardContent'' [ClassName ''p-6 text-center''] [
           Elem ''h3'' [ClassName ''text-xl font-bold mb-2''] [Lit ''Complete Exercise Collection''],
           Elem ''p'' [ClassName ''text-muted-foreground mb-4''] [
             Lit ''Access the full document with detailed explanations, code examples, and solutions''],
           Elem ''Button''
             [Variant ''outline'', ClassName ''mr-4'',
              OnClick (WindowOpen ''https://github.com/prabodh-dev1/programming-principles/blob/main/README.md'' ''_blank'')] [
             Elem ''BookOpen'' [ClassName ''w-4 h-4 mr-2''] [],
             Lit ''View Full Document''],
           Elem ''Button''
             [OnClick (WindowOpen ''https://github.com/prabodh-dev1/programming-principles'' ''_blank'')] [
             Elem ''Github'' [ClassName ''w-4 h-4 mr-2''] [],
             Lit ''Download Examples'']]]]"

subsection \<open>Resources tab\<close>

definition resources_tab :: node where
  "resources_tab =
     Elem ''TabsContent'' [Value ''resources'', ClassName ''space-y-6''] [
       Elem ''div'' [ClassName ''text-center space-y-4 mb-8''] [
         Elem ''h2'' [ClassName ''text-3xl font-bold''] [Lit ''Additional Resources''],
         Elem ''p'' [ClassName ''text-muted-foreground max-w-2xl mx-auto''] [
           Lit ''Further reading and tools to deepen your understanding'']],
       Elem ''div'' [ClassName ''grid md:grid-cols-2 gap-6''] [
         Elem ''Card'' [] [
           Elem ''CardHeader'' [] [
             Elem ''CardTitle'' [ClassName ''flex items-center''] [
               Elem ''BookOpen'' [ClassName ''w-5 h-5 mr-2 text-blue-500''] [],
               Lit ''Recommended Reading'']],
           Elem ''CardContent'' [ClassName ''space-y-4''] [
             Elem ''div'' [ClassName ''space-y-3''] [
               Elem ''div'' [ClassName ''p-3 border rounded-lg''] [
                 Elem ''h4'' [ClassName ''font-medium''] [Lit ''Clean Code''],
                 Elem ''p'' [ClassName ''text-sm text-muted-foreground''] [Lit ''by Robert C. Martin'']],
               Elem ''div'' [ClassName ''p-3 border rounded-lg''] [
                 Elem ''h4'' [ClassName ''font-medium''] [Lit ''The Pragmatic Programmer''],
                 Elem ''p'' [ClassName ''text-sm text-muted-foreground''] [Lit ''by Andrew Hunt & David Thomas'']],
               Elem ''div'' [ClassName ''p-3 border rounded-lg''] [
                 Elem ''h4'' [ClassName ''font-medium''] [Lit ''Design Patterns''],
                 Elem ''p'' [ClassName ''text-sm text-muted-foreground''] [Lit ''by Gang of Four'']]]]],
         Elem ''Card'' [] [
           Elem ''CardHeader'' [] [
             Elem ''CardTitle'' [ClassName ''flex items-center''] [
               Elem ''Code'' [ClassName ''w-5 h-5 mr-2 text-green-500''] [],
               Lit ''Tools & Frameworks'']],
           Elem ''CardContent'' [ClassName ''space-y-4''] [
             Elem ''div'' [ClassName ''space-y-3''] [
               Elem ''div'' [ClassName ''p-3 border rounded-lg''] [
                 Elem ''h4'' [ClassName ''font-medium''] [Lit ''ESLint''],
                 Elem ''p'' [ClassName ''text-sm text-muted-foreground''] [Lit ''Code quality and consistency'']],
               Elem ''div'' [ClassName ''p-3 border rounded-lg''] [
                 Elem ''h4'' [ClassName ''font-medium''] [Lit ''Prettier''],
                 Elem ''p'' [ClassName ''text-sm text-muted-foreground''] [Lit ''Code formatting'']],
               Elem ''div'' [ClassName ''p-3 border rounded-lg''] [
                 Elem ''h4'' [ClassName ''font-medium''] [Lit ''SonarQube''],
                 Elem ''p'' [ClassName ''text-sm text-muted-foreground''] [Lit ''Code quality analysis'']]]]]],
       Elem ''Card'' [] [
         Elem ''CardHeader'' [] [
           Elem ''CardTitle'' [] [Lit ''About This Project'']],
         Elem ''CardContent'' [] [
           Elem ''p'' [ClassName ''text-muted-foreground mb-4''] [
             Lit ''This interactive guide was created to help developers understand and apply fundamental programming principles through practical e-commerce examples. The exercises are designed to be hands-on and immediately applicable to real-world development scenarios.''],
           Elem ''Separator'' [ClassName ''my-4''] [],
           Elem ''div'' [ClassName ''flex items-center justify-between''] [
             Elem ''div'' [ClassName ''text-sm text-muted-foreground''] [
               Lit ''Created with React, Tailwind CSS, and shadcn/ui''],
             Elem ''div'' [ClassName ''flex space-x-2''] [
               Elem ''Badge'' [Variant ''outline''] [Lit ''Open Source''],
               Elem ''Badge'' [Variant ''outline''] [Lit ''Educational'']]]]]]"

subsection \<open>The component\<close>

text \<open>
  \<open>App\<close> as a function of the current value of its state hook: the JSX expression
  it returns when \<open>activeSection\<close> is \<open>current\<close>. The state is read in one place
  only, the \<open>value\<close> prop of \<open>Tabs\<close>.
\<close>

definition tabs_list :: node where
  "tabs_list =
     Elem ''TabsList'' [ClassName ''grid w-full grid-cols-4 mb-8''] [
       Elem ''TabsTrigger'' [Value ''overview''] [Lit ''Overview''],
       Elem ''TabsTrigger'' [Value ''principles''] [Lit ''Principles''],
       Elem ''TabsTrigger'' [Value ''exercises''] [Lit ''Exercises''],
       Elem ''TabsTrigger'' [Value ''resources''] [Lit ''Resources'']]"

definition App_main :: "string \<Rightarrow> node" where
  "App_main current =
     Elem ''main'' [ClassName ''container mx-auto px-4 py-8''] [
       Elem ''Tabs'' [Value current, OnValueChange SetActiveSection, ClassName ''w-full''] [
         tabs_list,
         overview_tab,
         principles_tab,
         exercises_tab,
         resources_tab]]"

definition App :: "string \<Rightarrow> node" where
  "App current =
     Elem ''div'' [ClassName ''min-h-screen bg-gradient-to-br from-slate-50 to-slate-100 dark:from-slate-900 dark:to-slate-800''] [
       App_header,
       App_main current,
       App_footer]"

section \<open>State, handlers and the browser\<close>

text \<open>
  The component's only state is \<open>activeSection\<close>, a JavaScript string. Around it
  stands what the handlers can reach in the browser: \<open>window.open\<close>, recorded as the
  list of navigations requested so far (URL and target), and the browser's persistent
  storage, which outlives a reload.
\<close>

record browser =
  activeSection :: string
  opened :: "(string \<times> string) list"
  storage :: "string \<rightharpoonup> string"

text \<open>
  A fresh load mounts the component; \<open>useState('overview')\<close> gives the state its
  initial value. Nothing of the previous page is read.
\<close>

definition load :: "browser \<Rightarrow> browser" where
  "load b = b\<lparr>activeSection := ''overview''\<rparr>"

fun run_setter :: "setter \<Rightarrow> string \<Rightarrow> browser \<Rightarrow> browser" where
  "run_setter SetActiveSection v b = b\<lparr>activeSection := v\<rparr>"

fun run_handler :: "handler \<Rightarrow> browser \<Rightarrow> browser" where
  "run_handler (CallSetActiveSection v) b = run_setter SetActiveSection v b"
| "run_handler (WindowOpen url target) b = b\<lparr>opened := opened b @ [(url, target)]\<rparr>"

section \<open>Reading an element tree\<close>

fun prop_value :: "jsx_prop list \<Rightarrow> string option" where
  "prop_value [] = None"
| "prop_value (Value v # ps) = Some v"
| "prop_value (_ # ps) = prop_value ps"

fun prop_variant :: "jsx_prop list \<Rightarrow> string option" where
  "prop_variant [] = None"
| "prop_variant (Variant v # ps) = Some v"
| "prop_variant (_ # ps) = prop_variant ps"

fun prop_onClick :: "jsx_prop list \<Rightarrow> handler option" where
  "prop_onClick [] = None"
| "prop_onClick (OnClick h # ps) = Some h"
| "prop_onClick (_ # ps) = prop_onClick ps"

fun prop_onValueChange :: "jsx_prop list \<Rightarrow> setter option" where
  "prop_onValueChange [] = None"
| "prop_onValueChange (OnValueChange s # ps) = Some s"
| "prop_onValueChange (_ # ps) = prop_onValueChange ps"

text \<open>The texts of a tree in document order: all of them, and the computed ones.\<close>

fun texts :: "node \<Rightarrow> string list" where
  "texts (Lit s) = [s]"
| "texts (Dyn s) = [s]"
| "texts (Elem tag ps kids) = concat (map texts kids)"

fun dyns :: "node \<Rightarrow> string list" where
  "dyns (Lit s) = []"
| "dyns (Dyn s) = [s]"
| "dyns (Elem tag ps kids) = concat (map dyns kids)"

definition shown :: "node \<Rightarrow> string" where
  "shown n = concat (texts n)"

text \<open>The elements with a given tag, in document order.\<close>

fun elems_named :: "string \<Rightarrow> node \<Rightarrow> node list" where
  "elems_named t (Lit s) = []"
| "elems_named t (Dyn s) = []"
| "elems_named t (Elem tag ps kids) =
     (if tag = t then [Elem tag ps kids] else []) @ concat (map (elems_named t) kids)"

fun node_props :: "node \<Rightarrow> jsx_prop list" where
  "node_props (Elem tag ps kids) = ps"
| "node_props _ = []"

fun node_children :: "node \<Rightarrow> node list" where
  "node_children (Elem tag ps kids) = kids"
| "node_children _ = []"

text \<open>The elements that carry an \<open>onClick\<close>, each with its text and its handler.\<close>

fun clickables :: "node \<Rightarrow> (string \<times> handler) list" where
  "clickables (Lit s) = []"
| "clickables (Dyn s) = []"
| "clickables (Elem tag ps kids) =
     (case prop_onClick ps of
        Some h \<Rightarrow> [(shown (Elem tag ps kids), h)]
      | None \<Rightarrow> [])
     @ concat (map clickables kids)"

definition is_navigation :: "handler \<Rightarrow> bool" where
  "is_navigation h = (case h of WindowOpen url target \<Rightarrow> True | CallSetActiveSection v \<Rightarrow> False)"

text \<open>The content \<open>App\<close> places under the \<open>TabsContent\<close> with a given \<open>value\<close>.\<close>

definition tab_view :: "string \<Rightarrow> node \<Rightarrow> node list" where
  "tab_view v tree =
     filter (\<lambda>n. prop_value (node_props n) = Some v) (elems_named ''TabsContent'' tree)"

text \<open>The string fields of a record, for comparing what a card shows with what is stored.\<close>

definition principle_fields :: "principle \<Rightarrow> string list" where
  "principle_fields p = [id_p p, name p, fullName p, color p, description p] @ benefits p"

definition exercise_fields :: "exercise \<Rightarrow> string list" where
  "exercise_fields e = [principle e, title e, language e, scenario e, difficulty e]"

definition direct_reads :: "string list \<Rightarrow> node \<Rightarrow> bool" where
  "direct_reads stored c = list_all (\<lambda>t. t \<in> set stored) (dyns c)"

section \<open>The tabs components\<close>

text \<open>
  \<open>App.jsx\<close> imports \<open>Tabs\<close>, \<open>TabsList\<close>, \<open>TabsTrigger\<close> and \<open>TabsContent\<close> from
  \<open>src/components/ui/tabs.jsx\<close>, which is not among the sources. What they do with the
  tree that \<open>App\<close> returns is therefore taken from the spec, section 4.1: the tab
  navigation tracks which of four named views is visible and renders exactly one at a
  time, and selecting a tab sets the active view synchronously.
\<close>

text \<open>
  Modelled from the spec: the mounting done by \<open>Tabs\<close> and \<open>TabsContent\<close> of \<open>tabs.jsx\<close>.
  Inside a \<open>Tabs\<close> with value \<open>v\<close>, a \<open>TabsContent\<close> is put into the page exactly when
  its own value is \<open>v\<close>. Everything else is mounted as it stands.
\<close>

fun mount :: "string option \<Rightarrow> node \<Rightarrow> node list" where
  "mount ctx (Lit s) = [Lit s]"
| "mount ctx (Dyn s) = [Dyn s]"
| "mount ctx (Elem tag ps kids) =
     (if tag = ''TabsContent'' \<and> prop_value ps \<noteq> ctx then []
      else [Elem tag ps
              (concat (map (mount (if tag = ''Tabs'' then prop_value ps else ctx)) kids))])"

text \<open>
  Modelled from the spec: the selection done by \<open>Tabs\<close> and \<open>TabsTrigger\<close> of \<open>tabs.jsx\<close>.
  Selecting a \<open>TabsTrigger\<close> hands the trigger's value to the \<open>onValueChange\<close> of the
  enclosing \<open>Tabs\<close>. The function lists the selections a tree offers, each with the
  setter it reaches.
\<close>

fun tab_selections :: "setter option \<Rightarrow> node \<Rightarrow> (string \<times> setter) list" where
  "tab_selections ctx (Lit s) = []"
| "tab_selections ctx (Dyn s) = []"
| "tab_selections ctx (Elem tag ps kids) =
     (if tag = ''TabsTrigger'' then
        (case (prop_value ps, ctx) of (Some v, Some s) \<Rightarrow> [(v, s)] | _ \<Rightarrow> [])
      else [])
     @ concat (map (tab_selections (if tag = ''Tabs'' then prop_onValueChange ps else ctx)) kids)"

text \<open>The page for a given state: what \<open>App\<close> returns, as the tabs components mount it.\<close>

definition page :: "string \<Rightarrow> node list" where
  "page current = mount None (App current)"

section \<open>User actions\<close>

text \<open>
  The user selects a tab trigger, clicks the k-th element of the page that carries an
  \<open>onClick\<close>, or reloads. An action the page does not offer gives \<open>None\<close>.
\<close>

datatype action = SelectTab string | Click nat | Reload

fun perform :: "action \<Rightarrow> browser \<Rightarrow> browser option" where
  "perform (SelectTab v) b =
     (case map_of (concat (map (tab_selections None) (page (activeSection b)))) v of
        Some s \<Rightarrow> Some (run_setter s v b)
      | None \<Rightarrow> None)"
| "perform (Click k) b =
     (let cs = concat (map clickables (page (activeSection b)))
      in if k < length cs then Some (run_handler (snd (cs ! k)) b) else None)"
| "perform Reload b = Some (load b)"

fun run :: "action list \<Rightarrow> browser \<Rightarrow> browser option" where
  "run [] b = Some b"
| "run (a # as) b = (case perform a b of Some b' \<Rightarrow> run as b' | None \<Rightarrow> None)"

section \<open>Evaluating the parts of the tree\<close>

text \<open>
  The tree is large, so each query is evaluated on the parts of \<open>App\<close> one at a time and
  the results are combined.
\<close>

subsection \<open>Mounting\<close>

lemma mount_App_header: "mount ctx App_header = [App_header]"
  by (simp add: App_header_def)

lemma mount_App_footer: "mount ctx App_footer = [App_footer]"
  by (simp add: App_footer_def)

lemma mount_tabs_list: "mount ctx tabs_list = [tabs_list]"
  by (simp add: tabs_list_def)

lemma mount_overview_tab:
  "mount (Some a) overview_tab = (if a = ''overview'' then [overview_tab] else [])"
  by (simp add: overview_tab_def overview_card_def principles_def)

lemma mount_principles_tab:
  "mount (Some a) principles_tab = (if a = ''principles'' then [principles_tab] else [])"
  by (simp add: principles_tab_def principle_card_def principles_def)

lemma mount_exercises_tab:
  "mount (Some a) exercises_tab = (if a = ''exercises'' then [exercises_tab] else [])"
  by (simp add: exercises_tab_def exercise_card_def exercises_def)

lemma mount_resources_tab:
  "mount (Some a) resources_tab = (if a = ''resources'' then [resources_tab] else [])"
  by (simp add: resources_tab_def)

lemma page_eq:
  "page a =
     [Elem ''div'' [ClassName ''min-h-screen bg-gradient-to-br from-slate-50 to-slate-100 dark:from-slate-900 dark:to-slate-800''] [
        App_header,
        Elem ''main'' [ClassName ''container mx-auto px-4 py-8''] [
          Elem ''Tabs'' [Value a, OnValueChange SetActiveSection, ClassName ''w-full'']
            (tabs_list #
             (if a = ''overview'' then [overview_tab] else []) @
             (if a = ''principles'' then [principles_tab] else []) @
             (if a = ''exercises'' then [exercises_tab] else []) @
             (if a = ''resources'' then [resources_tab] else []))],
        App_footer]]"
  by (simp add: page_def App_def App_main_def mount_App_header mount_App_footer mount_tabs_list
      mount_overview_tab mount_principles_tab mount_exercises_tab mount_resources_tab)

subsection \<open>The click handlers of each part\<close>

lemma clickables_App_header: "clickables App_header = [(''View Source'', WindowOpen ''https://github.com/prabodh-dev1/programming-principles'' ''_blank'')]"
  by (simp add: App_header_def shown_def)

lemma clickables_tabs_list: "clickables tabs_list = []"
  by (simp add: tabs_list_def)

lemma clickables_overview_tab: "clickables overview_tab = [(''Start Exercises'', CallSetActiveSection ''exercises'')]"
  by (simp add: overview_tab_def overview_card_def principles_def shown_def)

lemma clickables_principles_tab: "clickables principles_tab = []"
  by (simp add: principles_tab_def principle_card_def principles_def shown_def)

lemma clickables_resources_tab: "clickables resources_tab = []"
  by (simp add: resources_tab_def)

lemma clickables_App_footer: "clickables App_footer = []"
  by (simp add: App_footer_def)

lemma clickables_exercises_tab: "clickables exercises_tab =
  replicate 6 ('''', WindowOpen ''https://github.com/prabodh-dev1/programming-principles/blob/main/README.md'' ''_blank'')
  @ [(''View Full Document'', WindowOpen ''https://github.com/prabodh-dev1/programming-principles/blob/main/README.md'' ''_blank''),
     (''Download Examples'', WindowOpen ''https://github.com/prabodh-dev1/programming-principles'' ''_blank'')]"
  by (simp add: exercises_tab_def exercise_card_def exercises_def shown_def numeral_eq_Suc)

lemmas clickables_parts = clickables_App_header clickables_tabs_list clickables_overview_tab
  clickables_principles_tab clickables_exercises_tab clickables_resources_tab clickables_App_footer

lemma clickables_App:
  "clickables (App a) =
     [(''View Source'', WindowOpen ''https://github.com/prabodh-dev1/programming-principles'' ''_blank''),
      (''Start Exercises'', CallSetActiveSection ''exercises'')]
     @ replicate 6 ('''', WindowOpen ''https://github.com/prabodh-dev1/programming-principles/blob/main/README.md'' ''_blank'')
     @ [(''View Full Document'', WindowOpen ''https://github.com/prabodh-dev1/programming-principles/blob/main/README.md'' ''_blank''),
        (''Download Examples'', WindowOpen ''https://github.com/prabodh-dev1/programming-principles'' ''_blank'')]"
  by (simp add: App_def App_main_def clickables_parts)

lemma clickables_page:
  "concat (map clickables (page a)) =
     [(''View Source'', WindowOpen ''https://github.com/prabodh-dev1/programming-principles'' ''_blank'')]
     @ (if a = ''overview'' then [(''Start Exercises'', CallSetActiveSection ''exercises'')] else [])
     @ (if a = ''exercises'' then
          replicate 6 ('''', WindowOpen ''https://github.com/prabodh-dev1/programming-principles/blob/main/README.md'' ''_blank'')
          @ [(''View Full Document'', WindowOpen ''https://github.com/prabodh-dev1/programming-principles/blob/main/README.md'' ''_blank''),
             (''Download Examples'', WindowOpen ''https://github.com/prabodh-dev1/programming-principles'' ''_blank'')]
        else [])"
  by (simp add: page_eq clickables_parts)

subsection \<open>The tab triggers of each part\<close>

lemma tab_selections_App_header: "tab_selections ctx App_header = []"
  by (simp add: App_header_def)
lemma tab_selections_App_footer: "tab_selections ctx App_footer = []"
  by (simp add: App_footer_def)
lemma tab_selections_tabs_list: "tab_selections (Some s) tabs_list =
   [(''overview'', s), (''principles'', s), (''exercises'', s), (''resources'', s)]"
  by (simp add: tabs_list_def)
lemma tab_selections_overview_tab: "tab_selections ctx overview_tab = []"
  by (simp add: overview_tab_def overview_card_def principles_def)
lemma tab_selections_principles_tab: "tab_selections ctx principles_tab = []"
  by (simp add: principles_tab_def principle_card_def principles_def)
lemma tab_selections_exercises_tab: "tab_selections ctx exercises_tab = []"
  by (simp add: exercises_tab_def exercise_card_def exercises_def)
lemma tab_selections_resources_tab: "tab_selections ctx resources_tab = []"
  by (simp add: resources_tab_def)

lemma tab_selections_page:
  "concat (map (tab_selections None) (page a)) =
     [(''overview'', SetActiveSection), (''principles'', SetActiveSection),
      (''exercises'', SetActiveSection), (''resources'', SetActiveSection)]"
  by (simp add: page_eq tab_selections_App_header tab_selections_App_footer tab_selections_tabs_list
     tab_selections_overview_tab tab_selections_principles_tab tab_selections_exercises_tab tab_selections_resources_tab)

subsection \<open>The tab contents of each part\<close>

lemma contents_App_header: "elems_named ''TabsContent'' App_header = []"
  by (simp add: App_header_def)
lemma contents_App_footer: "elems_named ''TabsContent'' App_footer = []"
  by (simp add: App_footer_def)
lemma contents_tabs_list: "elems_named ''TabsContent'' tabs_list = []"
  by (simp add: tabs_list_def)
lemma contents_overview_tab: "elems_named ''TabsContent'' overview_tab = [overview_tab]"
  by (simp add: overview_tab_def overview_card_def principles_def)
lemma contents_principles_tab: "elems_named ''TabsContent'' principles_tab = [principles_tab]"
  by (simp add: principles_tab_def principle_card_def principles_def)
lemma contents_exercises_tab: "elems_named ''TabsContent'' exercises_tab = [exercises_tab]"
  by (simp add: exercises_tab_def exercise_card_def exercises_def)
lemma contents_resources_tab: "elems_named ''TabsContent'' resources_tab = [resources_tab]"
  by (simp add: resources_tab_def)

lemmas contents_parts = contents_App_header contents_App_footer contents_tabs_list
  contents_overview_tab contents_principles_tab contents_exercises_tab contents_resources_tab

lemma contents_App:
  "elems_named ''TabsContent'' (App a) = [overview_tab, principles_tab, exercises_tab, resources_tab]"
  by (simp add: App_def App_main_def contents_parts)

lemma contents_page:
  "concat (map (elems_named ''TabsContent'') (page a)) =
     (if a = ''overview'' then [overview_tab] else []) @
     (if a = ''principles'' then [principles_tab] else []) @
     (if a = ''exercises'' then [exercises_tab] else []) @
     (if a = ''resources'' then [resources_tab] else [])"
  by (simp add: page_eq contents_parts)

lemma tab_values:
  "prop_value (node_props overview_tab) = Some ''overview''"
  "prop_value (node_props principles_tab) = Some ''principles''"
  "prop_value (node_props exercises_tab) = Some ''exercises''"
  "prop_value (node_props resources_tab) = Some ''resources''"
  by (simp_all add: overview_tab_def principles_tab_def exercises_tab_def resources_tab_def)

lemma tab_view_App:
  "tab_view v (App a) =
     (if v = ''overview'' then [overview_tab] else []) @
     (if v = ''principles'' then [principles_tab] else []) @
     (if v = ''exercises'' then [exercises_tab] else []) @
     (if v = ''resources'' then [resources_tab] else [])"
  by (simp add: tab_view_def contents_App tab_values)

section \<open>Tab navigation\<close>

text \<open>
  C1. For each of the four tab identifiers overview, principles, exercises and resources:
  selecting the tab trigger with that identifier sets \<open>activeSection\<close> to it and changes
  nothing else; in the page for that state exactly one \<open>TabsContent\<close> is mounted, the one
  of the four that \<open>App\<close> returns whose value is the identifier, so the other three are
  not rendered.
\<close>

theorem selecting_tab_shows_its_view:
  assumes "v \<in> {''overview'', ''principles'', ''exercises'', ''resources''}"
  shows "perform (SelectTab v) b = Some (b\<lparr>activeSection := v\<rparr>)
       \<and> concat (map (elems_named ''TabsContent'') (page v)) = tab_view v (App v)
       \<and> map (\<lambda>n. prop_value (node_props n)) (tab_view v (App v)) = [Some v]
       \<and> map (\<lambda>n. prop_value (node_props n)) (elems_named ''TabsContent'' (App v)) =
           [Some ''overview'', Some ''principles'', Some ''exercises'', Some ''resources'']"
proof -
  have sel: "perform (SelectTab v) b = Some (b\<lparr>activeSection := v\<rparr>)"
    using assms by (auto simp: tab_selections_page)
  have vis: "concat (map (elems_named ''TabsContent'') (page v)) = tab_view v (App v)"
    by (simp only: contents_page tab_view_App)
  have one: "map (\<lambda>n. prop_value (node_props n)) (tab_view v (App v)) = [Some v]"
    using assms by (auto simp: tab_view_App tab_values)
  have four: "map (\<lambda>n. prop_value (node_props n)) (elems_named ''TabsContent'' (App v)) =
           [Some ''overview'', Some ''principles'', Some ''exercises'', Some ''resources'']"
    by (simp add: contents_App tab_values)
  from sel vis one four show ?thesis by blast
qed

theorem selecting_tab_shows_its_view_witness:
  "perform (SelectTab ''principles'') \<lparr>activeSection = ''overview'', opened = [], storage = Map.empty\<rparr>
     = Some \<lparr>activeSection = ''principles'', opened = [], storage = Map.empty\<rparr>
   \<and> concat (map (elems_named ''TabsContent'') (page ''principles'')) = [principles_tab]"
  using selecting_tab_shows_its_view [of "''principles''" "\<lparr>activeSection = ''overview'', opened = [], storage = Map.empty\<rparr>"]
  by (simp add: tab_view_App)

subsection \<open>The Tabs element\<close>

lemma tabs_parts:
  "elems_named ''Tabs'' App_header = []"
  "elems_named ''Tabs'' App_footer = []"
  "elems_named ''Tabs'' tabs_list = []"
  "elems_named ''Tabs'' overview_tab = []"
  "elems_named ''Tabs'' principles_tab = []"
  "elems_named ''Tabs'' exercises_tab = []"
  "elems_named ''Tabs'' resources_tab = []"
  by (simp_all add: App_header_def App_footer_def tabs_list_def overview_tab_def overview_card_def
      principles_tab_def principle_card_def exercises_tab_def exercise_card_def resources_tab_def
      principles_def exercises_def)

lemma tabs_value_App:
  "map (\<lambda>n. prop_value (node_props n)) (elems_named ''Tabs'' (App a)) = [Some a]"
  by (simp add: App_def App_main_def tabs_parts)

text \<open>
  C2. The Start Exercises button is the one element of the Overview tab with an
  \<open>onClick\<close>; its handler sets \<open>activeSection\<close> to exercises, so that \<open>App\<close> then gives
  \<open>Tabs\<close> the value exercises. Of all \<open>onClick\<close> handlers in the tree it is the only one
  that calls the setter: the other nine leave \<open>activeSection\<close> as it was.
\<close>

theorem start_exercises_button:
  "clickables overview_tab = [(''Start Exercises'', CallSetActiveSection ''exercises'')]
   \<and> run_handler (CallSetActiveSection ''exercises'') b = b\<lparr>activeSection := ''exercises''\<rparr>
   \<and> map (\<lambda>n. prop_value (node_props n))
         (elems_named ''Tabs'' (App (activeSection (run_handler (CallSetActiveSection ''exercises'') b))))
       = [Some ''exercises'']
   \<and> filter (\<lambda>(l, h). \<not> is_navigation h) (clickables (App a)) =
         [(''Start Exercises'', CallSetActiveSection ''exercises'')]
   \<and> map (\<lambda>(l, h). activeSection (run_handler h b)) (filter (\<lambda>(l, h). is_navigation h) (clickables (App a)))
       = replicate 9 (activeSection b)"
  by (simp add: clickables_overview_tab clickables_App tabs_value_App is_navigation_def numeral_eq_Suc)

text \<open>
  C6. A fresh load leaves \<open>activeSection\<close> at overview, whatever it was before and
  whatever the browser's storage holds; neither the load nor any handler nor the setter
  writes the storage.
\<close>

theorem reload_resets_active_section:
  "activeSection (load b) = ''overview''
   \<and> activeSection (load (run_setter SetActiveSection v b)) = ''overview''
   \<and> load (b\<lparr>storage := s\<rparr>) = (load b)\<lparr>storage := s\<rparr>
   \<and> storage (load b) = storage b
   \<and> storage (run_handler h b) = storage b
   \<and> storage (run_setter SetActiveSection v b) = storage b"
  by (cases h) (simp_all add: load_def)

subsection \<open>Reachable states\<close>

lemma clickables_page_handlers:
  assumes "(l, h) \<in> set (concat (map clickables (page a)))"
  shows "h = CallSetActiveSection ''exercises'' \<or> is_navigation h"
  using assms by (auto simp: clickables_page is_navigation_def split: if_splits)

lemma perform_active:
  assumes "perform a b = Some b'"
  shows "(activeSection b' \<in> {''overview'', ''principles'', ''exercises'', ''resources''}
          \<or> activeSection b' = activeSection b)
         \<and> storage b' = storage b"
proof (cases a)
  case (SelectTab v)
  with assms show ?thesis
    by (auto simp: tab_selections_page split: if_splits)
next
  case (Click k)
  define cs where "cs = concat (map clickables (page (activeSection b)))"
  from assms Click have k: "k < length cs" and b': "b' = run_handler (snd (cs ! k)) b"
    by (auto simp: cs_def Let_def split: if_splits)
  from k have "(fst (cs ! k), snd (cs ! k)) \<in> set cs" by simp
  then have "snd (cs ! k) = CallSetActiveSection ''exercises'' \<or> is_navigation (snd (cs ! k))"
    unfolding cs_def by (rule clickables_page_handlers)
  then show ?thesis
    by (cases "snd (cs ! k)") (auto simp: b' is_navigation_def)
next
  case Reload
  with assms show ?thesis by (auto simp: load_def)
qed

lemma run_active:
  assumes "run acts b = Some b'"
    and "activeSection b \<in> {''overview'', ''principles'', ''exercises'', ''resources''}"
  shows "activeSection b' \<in> {''overview'', ''principles'', ''exercises'', ''resources''}
         \<and> storage b' = storage b"
  using assms
proof (induction acts arbitrary: b)
  case Nil
  then show ?case by simp
next
  case (Cons a acts)
  from Cons.prems(1) obtain b1 where p: "perform a b = Some b1" and r: "run acts b1 = Some b'"
    by (auto split: option.splits)
  from perform_active [OF p] Cons.prems(2)
  have "activeSection b1 \<in> {''overview'', ''principles'', ''exercises'', ''resources''}"
    and s: "storage b1 = storage b" by auto
  with Cons.IH [OF r] show ?case by simp
qed

text \<open>
  C8. In every state reached from a fresh load by any sequence of actions the page
  offers (selecting a tab trigger, clicking an element with an \<open>onClick\<close>, which covers
  Start Exercises and the external links, or reloading), \<open>activeSection\<close> is one of
  overview, principles, exercises and resources, and the storage is as it was. The
  Principles and Exercises tabs that \<open>App\<close> returns in that state are the ones built from
  the two lists.
\<close>

theorem active_section_invariant:
  assumes "run acts (load b0) = Some b"
  shows "activeSection b \<in> {''overview'', ''principles'', ''exercises'', ''resources''}
         \<and> storage b = storage b0
         \<and> tab_view ''principles'' (App (activeSection b)) = [principles_tab]
         \<and> tab_view ''exercises'' (App (activeSection b)) = [exercises_tab]"
proof -
  have "activeSection (load b0) \<in> {''overview'', ''principles'', ''exercises'', ''resources''}"
    by (simp add: load_def)
  from run_active [OF assms this] show ?thesis
    by (simp add: load_def tab_view_App)
qed

theorem active_section_invariant_witness:
  "run [SelectTab ''principles'', Click 0, SelectTab ''overview'', Click 1]
     (load \<lparr>activeSection = ''resources'', opened = [], storage = Map.empty\<rparr>)
   = Some \<lparr>activeSection = ''exercises'',
           opened = [(''https://github.com/prabodh-dev1/programming-principles'', ''_blank'')],
           storage = Map.empty\<rparr>
   \<and> ''exercises'' \<in> {''overview'', ''principles'', ''exercises'', ''resources''}"
proof -
  have r: "run [SelectTab ''principles'', Click 0, SelectTab ''overview'', Click 1]
     (load \<lparr>activeSection = ''resources'', opened = [], storage = Map.empty\<rparr>)
   = Some \<lparr>activeSection = ''exercises'',
           opened = [(''https://github.com/prabodh-dev1/programming-principles'', ''_blank'')],
           storage = Map.empty\<rparr>"
    by (simp add: load_def tab_selections_page clickables_page)
  from active_section_invariant [OF r] r show ?thesis by simp
qed

section \<open>External links\<close>

text \<open>
  C5. The tree holds ten elements with an \<open>onClick\<close>: View Source, Start Exercises, the
  six per-exercise buttons (which have no text), View Full Document and Download Examples.
  Every one whose handler is a navigation opens one of the two fixed URLs in a new
  browsing context: activating it adds exactly that one navigation to the browser's list
  and leaves \<open>activeSection\<close>, the storage and the tree that \<open>App\<close> returns unchanged.
\<close>

theorem external_links_navigate_once:
  "clickables (App a) =
     [(''View Source'', WindowOpen ''https://github.com/prabodh-dev1/programming-principles'' ''_blank''),
      (''Start Exercises'', CallSetActiveSection ''exercises''),
      ('''', WindowOpen ''https://github.com/prabodh-dev1/programming-principles/blob/main/README.md'' ''_blank''),
      ('''', WindowOpen ''https://github.com/prabodh-dev1/programming-principles/blob/main/README.md'' ''_blank''),
      ('''', WindowOpen ''https://github.com/prabodh-dev1/programming-principles/blob/main/README.md'' ''_blank''),
      ('''', WindowOpen ''https://github.com/prabodh-dev1/programming-principles/blob/main/README.md'' ''_blank''),
      ('''', WindowOpen ''https://github.com/prabodh-dev1/programming-principles/blob/main/README.md'' ''_blank''),
      ('''', WindowOpen ''https://github.com/prabodh-dev1/programming-principles/blob/main/README.md'' ''_blank''),
      (''View Full Document'', WindowOpen ''https://github.com/prabodh-dev1/programming-principles/blob/main/README.md'' ''_blank''),
      (''Download Examples'', WindowOpen ''https://github.com/prabodh-dev1/programming-principles'' ''_blank'')]
   \<and> (\<forall>(l, h) \<in> set (clickables (App a)). is_navigation h \<longrightarrow>
         (\<exists>url. h = WindowOpen url ''_blank''
            \<and> url \<in> {''https://github.com/prabodh-dev1/programming-principles'',
                      ''https://github.com/prabodh-dev1/programming-principles/blob/main/README.md''}
            \<and> run_handler h b = b\<lparr>opened := opened b @ [(url, ''_blank'')]\<rparr>
            \<and> activeSection (run_handler h b) = activeSection b
            \<and> storage (run_handler h b) = storage b
            \<and> App (activeSection (run_handler h b)) = App (activeSection b)))"
  by (simp add: clickables_App is_navigation_def numeral_eq_Suc)

theorem external_links_navigate_once_witness:
  "run_handler (WindowOpen ''https://github.com/prabodh-dev1/programming-principles'' ''_blank'')
     \<lparr>activeSection = ''overview'', opened = [], storage = Map.empty\<rparr>
   = \<lparr>activeSection = ''overview'',
      opened = [(''https://github.com/prabodh-dev1/programming-principles'', ''_blank'')],
      storage = Map.empty\<rparr>
   \<and> (''View Source'', WindowOpen ''https://github.com/prabodh-dev1/programming-principles'' ''_blank'')
       \<in> set (clickables (App ''overview''))"
  using external_links_navigate_once [of "''overview''" "\<lparr>activeSection = ''overview'', opened = [], storage = Map.empty\<rparr>"]
  by simp

section \<open>Static content\<close>

text \<open>
  C9. For every exercise record, the third badge of its card shows the difficulty and
  has the variant default when the difficulty is the string Beginner and destructive
  otherwise. In the Exercises tab the two Beginner exercises get default and the four
  Intermediate ones destructive.
\<close>

theorem difficulty_badge_variant:
  "map (\<lambda>n. (shown n, prop_variant (node_props n))) (elems_named ''Badge'' (exercise_card e i)) =
     [(principle e, Some ''outline''), (language e, Some ''secondary''),
      (difficulty e, Some (if difficulty e = ''Beginner'' then ''default'' else ''destructive''))]
   \<and> map (\<lambda>c. (map shown (elems_named ''h3'' c),
                map (\<lambda>n. prop_variant (node_props n)) (drop 2 (elems_named ''Badge'' c))))
        (elems_named ''Card'' exercises_tab) =
     [([''Data Validation''], [Some ''default'']),
      ([''API Response Formatting''], [Some ''default'']),
      ([''Order Processing Logic''], [Some ''destructive'']),
      ([''Frontend Form Handling''], [Some ''destructive'']),
      ([''User Management''], [Some ''destructive'']),
      ([''API Request Handling''], [Some ''destructive'']),
      ([''Complete Exercise Collection''], [])]"
  by (simp add: exercises_tab_def exercise_card_def exercises_def shown_def)

text \<open>
  C10. The principle field of every exercise record is the name of a principle record.
  The names used are DRY, KISS and SRP only: no exercise refers to SOLID, which is the
  name of the fourth principle record.
\<close>

theorem exercises_reference_three_principles:
  "set (map principle exercises) \<subseteq> set (map name principles)
   \<and> set (map principle exercises) = {''DRY'', ''KISS'', ''SRP''}
   \<and> map name principles = [''DRY'', ''KISS'', ''SRP'', ''SOLID'']
   \<and> ''SOLID'' \<notin> set (map principle exercises)"
  by (simp add: exercises_def principles_def)

subsection \<open>The cards of the two lists\<close>

lemma cards_parts:
  "elems_named ''Card'' App_header = []"
  "elems_named ''Card'' App_footer = []"
  "elems_named ''Card'' tabs_list = []"
  by (simp_all add: App_header_def App_footer_def tabs_list_def)

lemma cards_page_principles:
  "concat (map (elems_named ''Card'') (page ''principles'')) = elems_named ''Card'' principles_tab"
  by (simp add: page_eq cards_parts)

lemma cards_page_exercises:
  "concat (map (elems_named ''Card'') (page ''exercises'')) = elems_named ''Card'' exercises_tab"
  by (simp add: page_eq cards_parts)

lemma cards_principles_tab:
  "elems_named ''Card'' principles_tab =
     map (\<lambda>(index, p). principle_card p index) (enumerate 0 principles)"
  by (simp add: principles_tab_def principle_card_def principles_def)

lemma cards_exercises_tab:
  "take 6 (elems_named ''Card'' exercises_tab) =
     map (\<lambda>(index, e). exercise_card e index) (enumerate 0 exercises)"
  by (simp add: exercises_tab_def exercise_card_def exercises_def)

lemma show_nat_small:
  "show_nat (Suc 0) = ''1''"
  "show_nat (Suc (Suc 0)) = ''2''"
  "show_nat (Suc (Suc (Suc 0))) = ''3''"
  "show_nat (Suc (Suc (Suc (Suc 0)))) = ''4''"
  by code_simp+

text \<open>
  C3. The Principles tab is the content with value principles, and at state principles
  its cards are all the cards of the page. There are four, one per record of
  \<open>principles\<close> in list order. The title of each shows the record's full name and, in
  parentheses, its name; its paragraph shows the description; its first list shows the
  benefits in the record's order. For the first record, DRY, the list is Maintainability,
  Readability, Reduced Bugs, Faster Development.
\<close>

theorem principles_view_cards:
  "tab_view ''principles'' (App a) = [principles_tab]
   \<and> concat (map (elems_named ''Card'') (page ''principles'')) = elems_named ''Card'' principles_tab
   \<and> map (\<lambda>c. (map dyns (elems_named ''CardTitle'' c),
                map shown (elems_named ''CardTitle'' c),
                map shown (elems_named ''p'' c),
                map (\<lambda>u. map shown (node_children u)) (take 1 (elems_named ''ul'' c))))
        (elems_named ''Card'' principles_tab)
     = map (\<lambda>p. ([[fullName p, name p]],
                  [fullName p @ '' ('' @ name p @ '')''],
                  [description p],
                  [benefits p]))
        principles
   \<and> length principles = 4
   \<and> map (\<lambda>c. map (\<lambda>u. map shown (node_children u)) (take 1 (elems_named ''ul'' c)))
        (take 1 (elems_named ''Card'' principles_tab))
     = [[[''Maintainability'', ''Readability'', ''Reduced Bugs'', ''Faster Development'']]]"
proof (intro conjI)
  show "tab_view ''principles'' (App a) = [principles_tab]"
    by (simp add: tab_view_App)
  show "concat (map (elems_named ''Card'') (page ''principles'')) = elems_named ''Card'' principles_tab"
    by (rule cards_page_principles)
  show "length principles = 4"
    by (simp add: principles_def)
qed (simp_all add: principles_tab_def principle_card_def principles_def shown_def)

text \<open>
  C4. The Exercises tab is the content with value exercises, and at state exercises its
  cards are all the cards of the page. Six of them come from the six records of
  \<open>exercises\<close>, in list order, each with three badges showing the record's principle,
  language and difficulty, a heading showing its title and a paragraph showing its
  scenario. A seventh card, without badges, follows them: the static Complete Exercise
  Collection card. The first card shows DRY, Python, Beginner and Data Validation.
\<close>

theorem exercises_view_cards:
  "tab_view ''exercises'' (App a) = [exercises_tab]
   \<and> concat (map (elems_named ''Card'') (page ''exercises'')) = elems_named ''Card'' exercises_tab
   \<and> map (\<lambda>c. (map shown (elems_named ''Badge'' c),
                map shown (elems_named ''h3'' c),
                map shown (elems_named ''p'' c)))
        (elems_named ''Card'' exercises_tab)
     = map (\<lambda>e. ([principle e, language e, difficulty e], [title e], [scenario e])) exercises
       @ [([], [''Complete Exercise Collection''],
           [''Access the full document with detailed explanations, code examples, and solutions''])]
   \<and> length exercises = 6
   \<and> map (\<lambda>c. (map shown (elems_named ''Badge'' c),
                map shown (elems_named ''h3'' c),
                map shown (elems_named ''p'' c)))
        (take 1 (elems_named ''Card'' exercises_tab))
     = [([''DRY'', ''Python'', ''Beginner''], [''Data Validation''],
         [''User Registration and Profile Update''])]"
proof (intro conjI)
  show "tab_view ''exercises'' (App a) = [exercises_tab]"
    by (simp add: tab_view_App)
  show "concat (map (elems_named ''Card'') (page ''exercises'')) = elems_named ''Card'' exercises_tab"
    by (rule cards_page_exercises)
  show "length exercises = 6"
    by (simp add: exercises_def)
qed (simp_all add: exercises_tab_def exercise_card_def exercises_def shown_def)

text \<open>
  C7, as stated, fails. The first card of the Principles tab shows the text 1, computed
  as \<open>index + 1\<close>, which is no field of the first principle record; and the difficulty
  badge of the first exercise card, which shows Beginner, has the variant default.
\<close>

theorem rendered_values_not_all_direct_reads:
  "\<not> direct_reads (principle_fields (principles ! 0)) (elems_named ''Card'' principles_tab ! 0)
   \<and> map (\<lambda>n. (shown n, prop_variant (node_props n)))
         (drop 2 (elems_named ''Badge'' (elems_named ''Card'' exercises_tab ! 0)))
       = [(''Beginner'', Some ''default'')]"
  by (simp add: direct_reads_def principle_fields_def principles_tab_def principle_card_def
      principles_def exercises_tab_def exercise_card_def exercises_def shown_def show_nat_small)

text \<open>
  C7, amended. Every computed text in a card is a field of the card's record, rendered as
  stored, with one exception: each card of the Principles tab also shows the record's
  list index plus one, after the words Essential principle #. The header, the footer, the
  tab list and the Resources tab show no computed text. The variant of the difficulty
  badge of an exercise card is computed from the difficulty: default for Beginner,
  destructive otherwise.
\<close>

theorem rendered_fields_and_computed_values:
  "map dyns (elems_named ''Card'' overview_tab)
     = map (\<lambda>p. [name p, fullName p, description p] @ benefits p) principles @ [[]]
   \<and> map dyns (elems_named ''Card'' principles_tab)
     = map (\<lambda>(index, p). [fullName p, name p, show_nat (index + 1), description p] @ benefits p)
         (enumerate 0 principles)
   \<and> map dyns (elems_named ''Card'' exercises_tab)
     = map (\<lambda>e. [principle e, language e, difficulty e, title e, scenario e]) exercises @ [[]]
   \<and> dyns resources_tab = [] \<and> dyns App_header = [] \<and> dyns App_footer = [] \<and> dyns tabs_list = []
   \<and> list_all (\<lambda>p. direct_reads (principle_fields p) (overview_card p)) principles
   \<and> list_all (\<lambda>(index, p). direct_reads (show_nat (index + 1) # principle_fields p) (principle_card p index))
        (enumerate 0 principles)
   \<and> list_all (\<lambda>(index, e). direct_reads (exercise_fields e) (exercise_card e index))
        (enumerate 0 exercises)
   \<and> map (\<lambda>c. map shown (elems_named ''CardDescription'' c)) (elems_named ''Card'' principles_tab)
     = [[''Essential principle #1''], [''Essential principle #2''],
        [''Essential principle #3''], [''Essential principle #4'']]
   \<and> map (\<lambda>c. map (\<lambda>n. prop_variant (node_props n)) (drop 2 (elems_named ''Badge'' c)))
        (elems_named ''Card'' exercises_tab)
     = map (\<lambda>e. [Some (if difficulty e = ''Beginner'' then ''default'' else ''destructive'')]) exercises
       @ [[]]"
proof (intro conjI)
  show "dyns resources_tab = []" by (simp add: resources_tab_def)
  show "dyns App_header = []" by (simp add: App_header_def)
  show "dyns App_footer = []" by (simp add: App_footer_def)
  show "dyns tabs_list = []" by (simp add: tabs_list_def)
  show "list_all (\<lambda>p. direct_reads (principle_fields p) (overview_card p)) principles"
    by (simp add: direct_reads_def principle_fields_def overview_card_def principles_def)
  show "list_all (\<lambda>(index, p). direct_reads (show_nat (index + 1) # principle_fields p) (principle_card p index))
          (enumerate 0 principles)"
    by (simp add: direct_reads_def principle_fields_def principle_card_def principles_def)
  show "list_all (\<lambda>(index, e). direct_reads (exercise_fields e) (exercise_card e index))
          (enumerate 0 exercises)"
    by (simp add: direct_reads_def exercise_fields_def exercise_card_def exercises_def)
  show "map dyns (elems_named ''Card'' overview_tab)
          = map (\<lambda>p. [name p, fullName p, description p] @ benefits p) principles @ [[]]"
    by (simp add: overview_tab_def overview_card_def principles_def)
  show "map (\<lambda>c. map shown (elems_named ''CardDescription'' c)) (elems_named ''Card'' principles_tab)
          = [[''Essential principle #1''], [''Essential principle #2''],
             [''Essential principle #3''], [''Essential principle #4'']]"
    by (simp add: principles_tab_def principle_card_def principles_def shown_def show_nat_small)
  show "map dyns (elems_named ''Card'' principles_tab)
          = map (\<lambda>(index, p). [fullName p, name p, show_nat (index + 1), description p] @ benefits p)
              (enumerate 0 principles)"
    by (simp add: principles_tab_def principle_card_def principles_def)
qed (simp_all add: exercises_tab_def exercise_card_def exercises_def)

end
